theory Spec2Isabelle
  imports Complex_Main
begin

section \<open>The binding layer of \<^verbatim>\<open>firedrake/ufl_expr.py\<close>\<close>

text \<open>
  The module binds a symbolic form language (UFL, the algebra engine) to function spaces.
  Its own code is small: the class \<^verbatim>\<open>Argument\<close> with \<^verbatim>\<open>reconstruct\<close>, the class
  \<^verbatim>\<open>Action\<close> with \<^verbatim>\<open>assemble\<close>, and the free functions \<^verbatim>\<open>TestFunction\<close>,
  \<^verbatim>\<open>TrialFunction\<close>, \<^verbatim>\<open>derivative\<close>, \<^verbatim>\<open>adjoint\<close> and \<^verbatim>\<open>action\<close>. Everything it
  calls in the algebra engine (\<^verbatim>\<open>ufl.action\<close>, \<^verbatim>\<open>ufl.adjoint\<close>, \<^verbatim>\<open>ufl.derivative\<close>,
  \<^verbatim>\<open>extract_arguments\<close>, the numbering of arguments) is a parameter of the definitions
  below, so every theorem holds for every engine.

  Python objects that the code compares by identity or mutates live in a store: a list
  of objects, a reference being an index into it. Allocation appends to the list, so a new
  object's reference is the length of the old store.
\<close>

type_synonym ref = nat

subsection \<open>Elements, function spaces and Python values\<close>

text \<open>
  A finite element, as far as this module looks at it: \<^verbatim>\<open>==\<close> on elements and
  \<^verbatim>\<open>value_shape()\<close>. HOL equality stands for Python's \<^verbatim>\<open>==\<close> on elements and on
  function spaces.
\<close>

record element =
  family :: string
  degree :: nat
  value_shape :: "nat list"

record fspace =
  mesh :: string
  ufl_element :: element

text \<open>
  The values a caller can pass where the code checks types at run time
  (\<^verbatim>\<open>isinstance(element, FiniteElementBase)\<close>, \<^verbatim>\<open>isinstance(count, int)\<close>,
  \<^verbatim>\<open>isinstance(u, core_types.Function)\<close>) or passes a value on unchecked. A discrete
  function is represented here by the function space it exposes, which is all the
  symbolic operations read of it.
\<close>

datatype pyval =
    PyInt int
  | PyFloat real
  | PyStr string
  | PyElement element
  | PyFunction fspace
  | PyArgument ref
  | PyTuple "pyval list"

text \<open>
  Python's \<^verbatim>\<open>==\<close>: numbers compare by value across \<^verbatim>\<open>int\<close> and \<^verbatim>\<open>float\<close>
  (\<^verbatim>\<open>-2.0 == -2\<close> is true); values of unrelated types are unequal.
\<close>

fun py_eq :: "pyval \<Rightarrow> pyval \<Rightarrow> bool" where
  "py_eq (PyInt a) (PyFloat r) = (of_int a = r)"
| "py_eq (PyFloat r) (PyInt a) = (r = of_int a)"
| "py_eq x y = (x = y)"

subsection \<open>Errors\<close>

text \<open>
  \<^verbatim>\<open>ufl_assert\<close> raises the engine's exception, which the specification calls
  ValidationError; the three assertions of \<^verbatim>\<open>reconstruct\<close> are told apart by their
  message. \<^verbatim>\<open>derivative\<close> raises \<^verbatim>\<open>RuntimeError\<close>. Unpacking
  \<^verbatim>\<open>v, u = extract_arguments(form)\<close> raises \<^verbatim>\<open>ValueError\<close> unless there are exactly two
  arguments. \<^verbatim>\<open>PropagatedError\<close> is a failure inside a collaborator that the module
  does not catch.
\<close>

datatype validation = ExpectingElement | ExpectingInt | DifferentValueShape

datatype error =
    ValidationError validation
  | RuntimeError
  | ValueError
  | PropagatedError

subsection \<open>Argument\<close>

text \<open>
  \<^verbatim>\<open>Argument.__init__\<close> hands \<^verbatim>\<open>element\<close> and \<^verbatim>\<open>count\<close> to the engine's argument class
  and stores \<^verbatim>\<open>function_space\<close> itself. The fields are \<^verbatim>\<open>self._element\<close>,
  \<^verbatim>\<open>self._count\<close> and \<^verbatim>\<open>self._function_space\<close>.
\<close>

record argument =
  arg_element :: element
  arg_count :: int
  arg_function_space :: fspace

type_synonym arg_store = "argument list"

text \<open>
  The constructor \<^verbatim>\<open>Argument(element, function_space, count=None)\<close>. A count that is given
  is the count of the new object; when it is omitted the engine numbers the object, and
  \<open>next_count\<close> is the number the engine hands out in the current store.
\<close>

definition Argument_new ::
  "(arg_store \<Rightarrow> int) \<Rightarrow> arg_store \<Rightarrow> element \<Rightarrow> fspace \<Rightarrow> int option \<Rightarrow> ref \<times> arg_store" where
  "Argument_new next_count h element function_space count =
     (length h,
      h @ [\<lparr>arg_element = element,
             arg_count = (case count of None \<Rightarrow> next_count h | Some c \<Rightarrow> c),
             arg_function_space = function_space\<rparr>])"

text \<open>
  \<^verbatim>\<open>Argument.reconstruct(self, element=None, function_space=None, count=None)\<close>.
  The three \<^verbatim>\<open>if\<close> statements replace each parameter that is omitted or compares equal
  to the current field by the current field itself; the test
  \<^verbatim>\<open>count is self._count and element is self._element\<close> then holds exactly when both
  were so replaced. The result is the outcome together with the store: the store is the
  old one unless the constructor ran.
\<close>

definition reconstruct ::
  "(arg_store \<Rightarrow> int) \<Rightarrow> arg_store \<Rightarrow> ref \<Rightarrow> pyval option \<Rightarrow> fspace option \<Rightarrow> pyval option
     \<Rightarrow> (error + ref) \<times> arg_store" where
  "reconstruct next_count h self element function_space count =
     (let me = h ! self;
          function_space' =
            (case function_space of
               None \<Rightarrow> arg_function_space me
             | Some V \<Rightarrow> if V = arg_function_space me then arg_function_space me else V);
          element' =
            (case element of
               None \<Rightarrow> PyElement (arg_element me)
             | Some e \<Rightarrow> if py_eq e (PyElement (arg_element me)) then PyElement (arg_element me) else e);
          count' =
            (case count of
               None \<Rightarrow> PyInt (arg_count me)
             | Some c \<Rightarrow> if py_eq c (PyInt (arg_count me)) then PyInt (arg_count me) else c)
      in if count' = PyInt (arg_count me) \<and> element' = PyElement (arg_element me)
         then (Inr self, h)
         else (case element' of
                 PyElement e \<Rightarrow>
                   (case count' of
                      PyInt c \<Rightarrow>
                        if value_shape e = value_shape (arg_element me)
                        then (let (r, h') = Argument_new next_count h e function_space' (Some c)
                              in (Inr r, h'))
                        else (Inl (ValidationError DifferentValueShape), h)
                    | _ \<Rightarrow> (Inl (ValidationError ExpectingInt), h))
               | _ \<Rightarrow> (Inl (ValidationError ExpectingElement), h)))"

subsection \<open>Constructors of canonical arguments\<close>

definition TestFunction :: "(arg_store \<Rightarrow> int) \<Rightarrow> arg_store \<Rightarrow> fspace \<Rightarrow> ref \<times> arg_store" where
  "TestFunction next_count h function_space =
     Argument_new next_count h (ufl_element function_space) function_space (Some (- 2))"

definition TrialFunction :: "(arg_store \<Rightarrow> int) \<Rightarrow> arg_store \<Rightarrow> fspace \<Rightarrow> ref \<times> arg_store" where
  "TrialFunction next_count h function_space =
     Argument_new next_count h (ufl_element function_space) function_space (Some (- 1))"

subsection \<open>derivative and adjoint\<close>

text \<open>
  \<^verbatim>\<open>derivative(form, u, du=None)\<close>. \<open>ufl_derivative\<close> is the engine's \<^verbatim>\<open>ufl.derivative\<close>.
\<close>

definition derivative ::
  "('form \<Rightarrow> pyval \<Rightarrow> pyval \<Rightarrow> 'form) \<Rightarrow> (arg_store \<Rightarrow> int) \<Rightarrow> arg_store
     \<Rightarrow> 'form \<Rightarrow> pyval \<Rightarrow> pyval option \<Rightarrow> (error + 'form) \<times> arg_store" where
  "derivative ufl_derivative next_count h form u du =
     (case du of
        None \<Rightarrow>
          (case u of
             PyFunction V \<Rightarrow>
               (let (r, h') = Argument_new next_count h (ufl_element V) V None
                in (Inr (ufl_derivative form u (PyArgument r)), h'))
           | _ \<Rightarrow> (Inl RuntimeError, h))
      | Some d \<Rightarrow> (Inr (ufl_derivative form u d), h))"

text \<open>
  \<^verbatim>\<open>adjoint(form, reordered_arguments=None)\<close>. \<open>ufl_adjoint\<close> is the engine's
  \<^verbatim>\<open>ufl.adjoint\<close> and \<open>extract_arguments\<close> its \<^verbatim>\<open>extract_arguments\<close>, which returns the
  form's arguments (references into the store). The tuple of new Arguments is built left
  to right: the one from \<open>u\<close> first.
\<close>

definition adjoint ::
  "('form \<Rightarrow> pyval \<Rightarrow> 'form) \<Rightarrow> ('form \<Rightarrow> ref list) \<Rightarrow> (arg_store \<Rightarrow> int) \<Rightarrow> arg_store
     \<Rightarrow> 'form \<Rightarrow> pyval option \<Rightarrow> (error + 'form) \<times> arg_store" where
  "adjoint ufl_adjoint extract_arguments next_count h form reordered_arguments =
     (case reordered_arguments of
        None \<Rightarrow>
          (case extract_arguments form of
             [v, u] \<Rightarrow>
               (let (r1, h1) = Argument_new next_count h
                                 (arg_element (h ! u)) (arg_function_space (h ! u)) None;
                    (r2, h2) = Argument_new next_count h1
                                 (arg_element (h1 ! v)) (arg_function_space (h1 ! v)) None
                in (Inr (ufl_adjoint form (PyTuple [PyArgument r1, PyArgument r2])), h2))
           | _ \<Rightarrow> (Inl ValueError, h))
      | Some r \<Rightarrow> (Inr (ufl_adjoint form r), h))"

subsection \<open>Discrete functions and the assembly collaborator\<close>

text \<open>
  A discrete function holds one value per degree of freedom; \<open>'v dat\<close> maps the index
  of a degree of freedom to its value. Functions are mutable and shared, so they live in a
  store of their own. \<^verbatim>\<open>Action.assemble\<close> only copies values and writes zero, so the
  type of values is any type with a zero.
\<close>

type_synonym 'v dat = "nat \<Rightarrow> 'v"

type_synonym 'v fstore = "'v dat list"

text \<open>A boundary condition exposes \<^verbatim>\<open>node_set\<close>, the degrees of freedom it constrains.\<close>

record DirichletBC =
  node_set :: "nat set"

text \<open>
  Modelled from the spec: \<^verbatim>\<open>core_types.Function\<close>, whose code is not in the source files.
  The discrete function type supports ``construction-by-copy from another function'' and
  ``\<^verbatim>\<open>assign(value_or_function, subset=...)\<close> for partial (subset-scoped) assignment''.
  \<open>Function_copy\<close> is \<^verbatim>\<open>core_types.Function(x)\<close>, \<open>assign\<close> is \<^verbatim>\<open>out.assign(f)\<close>,
  \<open>assign_subset\<close> is \<^verbatim>\<open>out.assign(f, subset=S)\<close> and \<open>assign_const_subset\<close> is
  \<^verbatim>\<open>out.assign(c, subset=S)\<close> for a number \<open>c\<close>.
\<close>

definition Function_copy :: "'v fstore \<Rightarrow> ref \<Rightarrow> ref \<times> 'v fstore" where
  "Function_copy h x = (length h, h @ [h ! x])"

definition assign :: "'v fstore \<Rightarrow> ref \<Rightarrow> ref \<Rightarrow> 'v fstore" where
  "assign h out f = h[out := h ! f]"

definition assign_subset :: "'v fstore \<Rightarrow> ref \<Rightarrow> ref \<Rightarrow> nat set \<Rightarrow> 'v fstore" where
  "assign_subset h out f S = h[out := (\<lambda>i. if i \<in> S then (h ! f) i else (h ! out) i)]"

definition assign_const_subset :: "'v fstore \<Rightarrow> ref \<Rightarrow> 'v \<Rightarrow> nat set \<Rightarrow> 'v fstore" where
  "assign_const_subset h out c S = h[out := (\<lambda>i. if i \<in> S then c else (h ! out) i)]"

text \<open>
  Modelled from the spec: \<^verbatim>\<open>solving.assemble\<close>, whose code is not in the source files:
  ``\<^verbatim>\<open>assemble(symbolic_action, tensor=optional_buffer) -> concrete_result\<close>''. The numbers
  it computes are the parameter \<open>asm\<close>: the values that assembling a form yields when the
  functions hold the values of the store. Without a tensor the result is a new function;
  with one it is written into the tensor.
\<close>

definition solving_assemble ::
  "('form \<Rightarrow> 'v fstore \<Rightarrow> 'v dat) \<Rightarrow> 'v fstore \<Rightarrow> 'form \<Rightarrow> ref option \<Rightarrow> ref \<times> 'v fstore" where
  "solving_assemble asm h form tensor =
     (case tensor of
        None \<Rightarrow> (length h, h @ [asm form h])
      | Some t \<Rightarrow> (t, h[t := asm form h]))"

subsection \<open>Action\<close>

text \<open>The fields are \<^verbatim>\<open>self._a\<close>, \<^verbatim>\<open>self._x\<close> and \<^verbatim>\<open>self._bcs\<close>.\<close>

record 'form Action =
  Action_a :: 'form
  Action_x :: "ref option"
  Action_bcs :: "DirichletBC list option"

definition Action_init :: "'form \<Rightarrow> ref option \<Rightarrow> DirichletBC list option \<Rightarrow> 'form Action" where
  "Action_init a x bcs = \<lparr>Action_a = a, Action_x = x, Action_bcs = bcs\<rparr>"

text \<open>The loop \<^verbatim>\<open>for bc in self._bcs: out.assign(0, subset=bc.node_set)\<close>.\<close>

primrec zero_bcs :: "'v::zero fstore \<Rightarrow> ref \<Rightarrow> DirichletBC list \<Rightarrow> 'v fstore" where
  "zero_bcs h out [] = h"
| "zero_bcs h out (bc # bcs) = zero_bcs (assign_const_subset h out 0 (node_set bc)) out bcs"

text \<open>The loop \<^verbatim>\<open>for bc in self._bcs: out.assign(self._x, subset=bc.node_set)\<close>.\<close>

primrec restore_bcs :: "'v fstore \<Rightarrow> ref \<Rightarrow> ref \<Rightarrow> DirichletBC list \<Rightarrow> 'v fstore" where
  "restore_bcs h out x [] = h"
| "restore_bcs h out x (bc # bcs) = restore_bcs (assign_subset h out x (node_set bc)) out x bcs"

text \<open>
  \<^verbatim>\<open>Action.assemble(self, tensor=None)\<close>. \<open>ufl_action\<close> is the engine's \<^verbatim>\<open>ufl.action\<close>; the
  form it returns refers to its coefficient by reference. With boundary conditions the
  code copies from \<^verbatim>\<open>self._x\<close> first; where the action was built without a coefficient
  the collaborator it calls has no function to copy from and its failure propagates.
\<close>

definition Action_assemble ::
  "('form \<Rightarrow> ref option \<Rightarrow> 'form) \<Rightarrow> ('form \<Rightarrow> 'v fstore \<Rightarrow> 'v dat) \<Rightarrow> 'v::zero fstore
     \<Rightarrow> 'form Action \<Rightarrow> ref option \<Rightarrow> (error + ref) \<times> 'v fstore" where
  "Action_assemble ufl_action asm h self tensor =
     (case Action_bcs self of
        None \<Rightarrow>
          (let (r, h') = solving_assemble asm h (ufl_action (Action_a self) (Action_x self)) tensor
           in (Inr r, h'))
      | Some bcs \<Rightarrow>
          (case Action_x self of
             None \<Rightarrow> (Inl PropagatedError, h)
           | Some x \<Rightarrow>
               (let (out, h1) = (case tensor of
                                   None \<Rightarrow> Function_copy h x
                                 | Some t \<Rightarrow> (t, assign h t x));
                    h2 = zero_bcs h1 out bcs;
                    (tmp, h3) = solving_assemble asm h2 (ufl_action (Action_a self) (Some out)) None;
                    h4 = assign h3 out tmp;
                    h5 = restore_bcs h4 out x bcs
                in (Inr out, h5))))"

text \<open>
  \<^verbatim>\<open>action(form, coefficient=None, bcs=None)\<close> returns either a form of the engine or an
  \<^verbatim>\<open>Action\<close> object.
\<close>

datatype 'form action_result = UflForm 'form | ActionObject "'form Action"

definition action ::
  "('form \<Rightarrow> ref option \<Rightarrow> 'form) \<Rightarrow> 'form \<Rightarrow> ref option \<Rightarrow> DirichletBC list option
     \<Rightarrow> 'form action_result" where
  "action ufl_action form coefficient bcs =
     (case bcs of
        None \<Rightarrow> UflForm (ufl_action form coefficient)
      | Some b \<Rightarrow> ActionObject (Action_init form coefficient (Some b)))"

subsection \<open>The algorithm of \<^verbatim>\<open>assemble\<close> as the specification words it\<close>

text \<open>
  The specification describes the boundary-condition path on the values of the result:
  start from the values of \<open>x\<close>; for each boundary condition, in order, zero the values at
  its nodes; assemble the action on the zeroed values; for each boundary condition, in the
  same order, put back the original values of \<open>x\<close> at its nodes.
\<close>

primrec zero_steps :: "'v::zero dat \<Rightarrow> DirichletBC list \<Rightarrow> 'v dat" where
  "zero_steps d [] = d"
| "zero_steps d (bc # bcs) = zero_steps (\<lambda>i. if i \<in> node_set bc then 0 else d i) bcs"

primrec restore_steps :: "'v dat \<Rightarrow> 'v dat \<Rightarrow> DirichletBC list \<Rightarrow> 'v dat" where
  "restore_steps x0 d [] = d"
| "restore_steps x0 d (bc # bcs) = restore_steps x0 (\<lambda>i. if i \<in> node_set bc then x0 i else d i) bcs"

text \<open>The store in which the action is assembled: \<open>out\<close> holds the zeroed copy of \<open>x\<close>.\<close>

definition zeroed_store :: "'v::zero fstore \<Rightarrow> ref \<Rightarrow> DirichletBC list \<Rightarrow> ref option \<Rightarrow> 'v fstore" where
  "zeroed_store h x bcs tensor =
     (case tensor of
        None \<Rightarrow> h @ [zero_steps (h ! x) bcs]
      | Some t \<Rightarrow> h[t := zero_steps (h ! x) bcs])"

definition out_ref :: "'v fstore \<Rightarrow> ref option \<Rightarrow> ref" where
  "out_ref h tensor = (case tensor of None \<Rightarrow> length h | Some t \<Rightarrow> t)"

definition assemble_steps ::
  "('form \<Rightarrow> ref option \<Rightarrow> 'form) \<Rightarrow> ('form \<Rightarrow> 'v fstore \<Rightarrow> 'v dat) \<Rightarrow> 'v::zero fstore
     \<Rightarrow> 'form \<Rightarrow> ref \<Rightarrow> DirichletBC list \<Rightarrow> ref option \<Rightarrow> 'v dat" where
  "assemble_steps ufl_action asm h a x bcs tensor =
     restore_steps (h ! x)
       (asm (ufl_action a (Some (out_ref h tensor))) (zeroed_store h x bcs tensor)) bcs"

text \<open>The degrees of freedom that some boundary condition of the collection constrains.\<close>

definition constrained :: "DirichletBC list \<Rightarrow> nat set" where
  "constrained bcs = (\<Union>bc\<in>set bcs. node_set bc)"

subsection \<open>Concrete inputs\<close>

text \<open>
  Two function spaces with the same element on two meshes of the unit interval, the
  canonical test and trial functions on the first, and a toy engine whose forms are
  terms and whose numbering hands out the size of the store.
\<close>

definition ex_P1 :: element where
  "ex_P1 = \<lparr>family = ''Lagrange'', degree = 1, value_shape = []\<rparr>"

definition ex_P2 :: element where
  "ex_P2 = \<lparr>family = ''Lagrange'', degree = 2, value_shape = []\<rparr>"


definition ex_V :: fspace where
  "ex_V = \<lparr>mesh = ''UnitIntervalMesh(2)'', ufl_element = ex_P1\<rparr>"

definition ex_W :: fspace where
  "ex_W = \<lparr>mesh = ''UnitIntervalMesh(4)'', ufl_element = ex_P1\<rparr>"

definition ex_test :: argument where
  "ex_test = \<lparr>arg_element = ex_P1, arg_count = - 2, arg_function_space = ex_V\<rparr>"

definition ex_trial :: argument where
  "ex_trial = \<lparr>arg_element = ex_P1, arg_count = - 1, arg_function_space = ex_V\<rparr>"

definition ex_args :: arg_store where
  "ex_args = [ex_test, ex_trial]"

definition ex_next_count :: "arg_store \<Rightarrow> int" where
  "ex_next_count h = int (length h)"

datatype ex_form =
    Mass
  | ActionOf ex_form "ref option"
  | AdjointOf ex_form pyval
  | DerivativeOf ex_form pyval pyval

fun ex_extract_arguments :: "ex_form \<Rightarrow> ref list" where
  "ex_extract_arguments Mass = [0, 1]"
| "ex_extract_arguments f = []"

text \<open>
  A store of two functions: \<open>x\<close> with the values 5, 6, 7, ... and a buffer holding 100
  everywhere. The toy assembly of an action doubles the coefficient's values and adds one.
\<close>

definition ex_x :: "int dat" where
  "ex_x i = 5 + int i"

definition ex_buffer :: "int dat" where
  "ex_buffer i = 100"

definition ex_store :: "int fstore" where
  "ex_store = [ex_x, ex_buffer]"

fun ex_asm :: "ex_form \<Rightarrow> int fstore \<Rightarrow> int dat" where
  "ex_asm (ActionOf a (Some c)) h = (\<lambda>i. 2 * (h ! c) i + 1)"
| "ex_asm f h = (\<lambda>i. 0)"

definition ex_bc1 :: DirichletBC where
  "ex_bc1 = \<lparr>node_set = {0, 1}\<rparr>"

definition ex_bc2 :: DirichletBC where
  "ex_bc2 = \<lparr>node_set = {1, 2}\<rparr>"

section \<open>Properties\<close>

subsection \<open>The loops of \<^verbatim>\<open>assemble\<close>\<close>

lemma zero_steps_at: "zero_steps d bcs i = (if i \<in> constrained bcs then 0 else d i)"
  by (induction bcs arbitrary: d) (auto simp: constrained_def)

lemma restore_steps_at:
  "restore_steps x0 d bcs i = (if i \<in> constrained bcs then x0 i else d i)"
  by (induction bcs arbitrary: d) (auto simp: constrained_def)

text \<open>The zeroing loop only writes \<open>out\<close>, and writes there what the steps compute.\<close>

lemma zero_bcs_closed: "zero_bcs h out bcs = h[out := zero_steps (h ! out) bcs]"
proof (induction bcs arbitrary: h)
  case Nil
  show ?case by simp
next
  case (Cons bc bcs)
  show ?case
  proof (cases "out < length h")
    case True
    then show ?thesis by (simp add: Cons.IH assign_const_subset_def)
  next
    case False
    then show ?thesis by (simp add: Cons.IH assign_const_subset_def list_update_beyond)
  qed
qed

text \<open>
  The restoring loop reads \<open>x\<close> in the current store at every iteration. Where \<open>out\<close> is
  another object than \<open>x\<close>, \<open>x\<close> still holds its original values, and the loop puts them
  back.
\<close>

lemma restore_bcs_closed:
  "x < length h \<Longrightarrow> x \<noteq> out \<Longrightarrow>
   restore_bcs h out x bcs = h[out := restore_steps (h ! x) (h ! out) bcs]"
proof (induction bcs arbitrary: h)
  case Nil
  show ?case by simp
next
  case (Cons bc bcs)
  show ?case
  proof (cases "out < length h")
    case True
    with Cons.prems show ?thesis by (simp add: Cons.IH assign_subset_def)
  next
    case False
    with Cons.prems show ?thesis by (simp add: Cons.IH assign_subset_def list_update_beyond)
  qed
qed

text \<open>Where \<open>out\<close> is \<open>x\<close> itself, the restoring loop copies \<open>x\<close> onto itself.\<close>

lemma restore_bcs_alias: "restore_bcs h x x bcs = h"
  by (induction bcs arbitrary: h) (simp_all add: assign_subset_def)

subsection \<open>\<^verbatim>\<open>assemble\<close> with boundary conditions, in closed form\<close>

lemma Action_assemble_fresh:
  assumes "x < length h"
  shows "Action_assemble ufl_action asm h (Action_init a (Some x) (Some bcs)) None =
           (Inr (length h),
            h @ [assemble_steps ufl_action asm h a x bcs None,
                 asm (ufl_action a (Some (length h))) (zeroed_store h x bcs None)])"
  using assms
  by (simp add: Action_assemble_def Action_init_def Function_copy_def solving_assemble_def
      assign_def zero_bcs_closed restore_bcs_closed assemble_steps_def zeroed_store_def
      out_ref_def nth_append list_update_append Let_def)

lemma Action_assemble_tensor:
  assumes "x < length h" "t < length h" "t \<noteq> x"
  shows "Action_assemble ufl_action asm h (Action_init a (Some x) (Some bcs)) (Some t) =
           (Inr t,
            h[t := assemble_steps ufl_action asm h a x bcs (Some t)]
              @ [asm (ufl_action a (Some t)) (zeroed_store h x bcs (Some t))])"
  using assms
  by (simp add: Action_assemble_def Action_init_def Function_copy_def solving_assemble_def
      assign_def zero_bcs_closed restore_bcs_closed assemble_steps_def zeroed_store_def
      out_ref_def nth_append list_update_append Let_def)

lemma Action_assemble_alias:
  assumes "x < length h"
  shows "Action_assemble ufl_action asm h (Action_init a (Some x) (Some bcs)) (Some x) =
           (Inr x,
            h[x := asm (ufl_action a (Some x)) (zeroed_store h x bcs (Some x))]
              @ [asm (ufl_action a (Some x)) (zeroed_store h x bcs (Some x))])"
  using assms
  by (simp add: Action_assemble_def Action_init_def Function_copy_def solving_assemble_def
      assign_def zero_bcs_closed restore_bcs_alias assemble_steps_def zeroed_store_def
      out_ref_def nth_append list_update_append Let_def)

subsection \<open>\<^verbatim>\<open>reconstruct\<close>\<close>



text \<open>
  The early return looks at the element and the count only: whatever function space is
  passed, \<^verbatim>\<open>self\<close> is returned when those two are omitted or compare equal to the current
  ones.
\<close>

lemma reconstruct_unchanged:
  assumes "element = None \<or> py_eq (the element) (PyElement (arg_element (h ! self)))"
      and "count = None \<or> py_eq (the count) (PyInt (arg_count (h ! self)))"
  shows "reconstruct next_count h self element function_space count = (Inr self, h)"
  using assms by (auto simp: reconstruct_def Let_def split: option.splits)

subsection \<open>The concrete inputs, evaluated\<close>

lemma ex_constrained: "constrained [ex_bc1, ex_bc2] = {0, 1, 2}"
  by (auto simp: constrained_def ex_bc1_def ex_bc2_def)

lemma ex_store_simps:
  "length ex_store = 2" "ex_store ! 0 = ex_x" "ex_store ! 1 = ex_buffer"
  by (simp_all add: ex_store_def)

section \<open>The claims\<close>

text \<open>
  C10. For every function space \<open>V\<close>, \<^verbatim>\<open>TestFunction(V)\<close> returns an Argument with count
  \<open>-2\<close> and \<^verbatim>\<open>TrialFunction(V)\<close> returns an Argument with count \<open>-1\<close>, each built from
  \<open>V\<close>'s element and bound to \<open>V\<close> itself as its function space. Each is a new object: its
  reference is the first one free in the store, and the objects already there are kept.
\<close>

theorem TestFunction_TrialFunction_canonical:
  "TestFunction next_count h V =
     (length h,
      h @ [\<lparr>arg_element = ufl_element V, arg_count = - 2, arg_function_space = V\<rparr>])
   \<and> arg_count (snd (TestFunction next_count h V) ! fst (TestFunction next_count h V)) = - 2
   \<and> arg_element (snd (TestFunction next_count h V) ! fst (TestFunction next_count h V))
       = ufl_element V
   \<and> arg_function_space (snd (TestFunction next_count h V) ! fst (TestFunction next_count h V))
       = V
   \<and> TrialFunction next_count h V =
     (length h,
      h @ [\<lparr>arg_element = ufl_element V, arg_count = - 1, arg_function_space = V\<rparr>])
   \<and> arg_count (snd (TrialFunction next_count h V) ! fst (TrialFunction next_count h V)) = - 1
   \<and> arg_element (snd (TrialFunction next_count h V) ! fst (TrialFunction next_count h V))
       = ufl_element V
   \<and> arg_function_space (snd (TrialFunction next_count h V) ! fst (TrialFunction next_count h V))
       = V"
  by (simp add: TestFunction_def TrialFunction_def Argument_new_def)

theorem TestFunction_TrialFunction_canonical_witness:
  "arg_count (snd (TestFunction ex_next_count ex_args ex_V) ! 2) = - 2
   \<and> arg_count (snd (TrialFunction ex_next_count ex_args ex_V) ! 2) = - 1
   \<and> arg_element (snd (TestFunction ex_next_count ex_args ex_V) ! 2) = ex_P1
   \<and> arg_function_space (snd (TrialFunction ex_next_count ex_args ex_V) ! 2) = ex_V"
  using TestFunction_TrialFunction_canonical [of ex_next_count ex_args ex_V]
  by (simp add: ex_args_def ex_V_def)

text \<open>
  C1, for a tensor that is not \<open>x\<close> itself. For every bilinear form \<open>a\<close>, coefficient \<open>x\<close> and ordered collection of
  boundary conditions \<open>bcs\<close>, and for every \<open>tensor\<close> that is absent or a function other
  than \<open>x\<close> itself, \<^verbatim>\<open>Action(a, x, bcs).assemble(tensor)\<close> returns \<open>out\<close>, the new copy of
  \<open>x\<close> or the tensor, holding what the steps of the specification compute: the values of
  \<open>x\<close>, zeroed at each boundary condition's nodes in the supplied order, replaced by the
  assembled action of \<open>a\<close> on the zeroed \<open>out\<close>, with the original values of \<open>x\<close> put back at
  each boundary condition's nodes in the supplied order. The function \<open>out\<close> on which the
  action is assembled is the boundary-zeroed copy of \<open>x\<close>; every constrained degree of
  freedom of the result equals the value of \<open>x\<close> there, and every unconstrained one the
  assembled action there. The collection may be empty.
\<close>

theorem Action_assemble_with_bcs:
  assumes "x < length h"
      and "case tensor of None \<Rightarrow> True | Some t \<Rightarrow> t < length h \<and> t \<noteq> x"
  shows "fst (Action_assemble ufl_action asm h (Action_init a (Some x) (Some bcs)) tensor)
           = Inr (out_ref h tensor)
       \<and> snd (Action_assemble ufl_action asm h (Action_init a (Some x) (Some bcs)) tensor)
             ! out_ref h tensor
           = assemble_steps ufl_action asm h a x bcs tensor
       \<and> (\<forall>i. (zeroed_store h x bcs tensor ! out_ref h tensor) i
                = (if i \<in> constrained bcs then 0 else (h ! x) i))
       \<and> (\<forall>i \<in> constrained bcs.
             (snd (Action_assemble ufl_action asm h (Action_init a (Some x) (Some bcs)) tensor)
                ! out_ref h tensor) i = (h ! x) i)
       \<and> (\<forall>i. i \<notin> constrained bcs \<longrightarrow>
             (snd (Action_assemble ufl_action asm h (Action_init a (Some x) (Some bcs)) tensor)
                ! out_ref h tensor) i
               = asm (ufl_action a (Some (out_ref h tensor))) (zeroed_store h x bcs tensor) i)"
proof (cases tensor)
  case None
  have r: "Action_assemble ufl_action asm h (Action_init a (Some x) (Some bcs)) None =
           (Inr (length h),
            h @ [assemble_steps ufl_action asm h a x bcs None,
                 asm (ufl_action a (Some (length h))) (zeroed_store h x bcs None)])"
    using assms(1) by (rule Action_assemble_fresh)
  have o: "out_ref h None = length h" by (simp add: out_ref_def)
  show ?thesis
    unfolding None r o
    by (simp add: zeroed_store_def zero_steps_at assemble_steps_def restore_steps_at out_ref_def)
next
  case (Some t)
  with assms have t: "t < length h" "t \<noteq> x" by simp_all
  have r: "Action_assemble ufl_action asm h (Action_init a (Some x) (Some bcs)) (Some t) =
           (Inr t,
            h[t := assemble_steps ufl_action asm h a x bcs (Some t)]
              @ [asm (ufl_action a (Some t)) (zeroed_store h x bcs (Some t))])"
    using assms(1) t by (rule Action_assemble_tensor)
  have o: "out_ref h (Some t) = t" by (simp add: out_ref_def)
  show ?thesis
    unfolding Some r o using t
    by (simp add: zeroed_store_def zero_steps_at assemble_steps_def restore_steps_at out_ref_def
        nth_append)
qed

text \<open>
  The theorem at the concrete store, without a tensor: the result is the new function 2;
  at the constrained node 1 it holds the 6 of \<open>x\<close>, at the free node 3 the assembled
  \<open>2 * 8 + 1\<close>.
\<close>

theorem Action_assemble_with_bcs_witness:
  "fst (Action_assemble ActionOf ex_asm ex_store
          (Action_init Mass (Some 0) (Some [ex_bc1, ex_bc2])) None) = Inr 2
   \<and> (snd (Action_assemble ActionOf ex_asm ex_store
          (Action_init Mass (Some 0) (Some [ex_bc1, ex_bc2])) None) ! 2) 1 = 6
   \<and> (snd (Action_assemble ActionOf ex_asm ex_store
          (Action_init Mass (Some 0) (Some [ex_bc1, ex_bc2])) None) ! 2) 3 = 17"
proof -
  have len: "0 < length ex_store"
    by (simp add: ex_store_simps)
  have ten: "case None :: ref option of None \<Rightarrow> True | Some t \<Rightarrow> t < length ex_store \<and> t \<noteq> 0"
    by simp
  have out: "out_ref ex_store None = 2"
    by (simp add: out_ref_def ex_store_simps)
  note A = Action_assemble_with_bcs [OF len ten, where ufl_action = ActionOf and asm = ex_asm
      and a = Mass and bcs = "[ex_bc1, ex_bc2]", unfolded out ex_constrained ex_store_simps]
  note ret = A [THEN conjunct1]
  note zeroed = A [THEN conjunct2, THEN conjunct2, THEN conjunct1, THEN spec, of 3]
  note kept = A [THEN conjunct2, THEN conjunct2, THEN conjunct2, THEN conjunct1, THEN bspec, of 1]
  note acted = A [THEN conjunct2, THEN conjunct2, THEN conjunct2, THEN conjunct2, THEN spec, of 3]
  from kept have "(snd (Action_assemble ActionOf ex_asm ex_store
          (Action_init Mass (Some 0) (Some [ex_bc1, ex_bc2])) None) ! 2) 1 = 6"
    by (simp add: ex_x_def)
  moreover from acted zeroed have "(snd (Action_assemble ActionOf ex_asm ex_store
          (Action_init Mass (Some 0) (Some [ex_bc1, ex_bc2])) None) ! 2) 3 = 17"
    by (simp add: ex_x_def)
  ultimately show ?thesis
    using ret by simp
qed

text \<open>
  C1 does not hold where the tensor is \<open>x\<close> itself: \<^verbatim>\<open>out\<close> and \<^verbatim>\<open>self._x\<close> are then one
  object, the zeroing and the assembled values overwrite \<open>x\<close>, and the last loop copies
  \<open>x\<close> onto itself. At the constrained node 0 the result holds the assembled value 1, not
  the 5 that \<open>x\<close> held.
\<close>

theorem Action_assemble_aliased_tensor_counterexample:
  "0 \<in> constrained [ex_bc1, ex_bc2]
   \<and> fst (Action_assemble ActionOf ex_asm ex_store
          (Action_init Mass (Some 0) (Some [ex_bc1, ex_bc2])) (Some 0)) = Inr 0
   \<and> (snd (Action_assemble ActionOf ex_asm ex_store
          (Action_init Mass (Some 0) (Some [ex_bc1, ex_bc2])) (Some 0)) ! 0) 0 = 1
   \<and> (ex_store ! 0) 0 = 5
   \<and> (snd (Action_assemble ActionOf ex_asm ex_store
          (Action_init Mass (Some 0) (Some [ex_bc1, ex_bc2])) (Some 0)) ! 0) 0
       \<noteq> (ex_store ! 0) 0"
  by (simp add: Action_assemble_alias ex_constrained ex_store_simps zeroed_store_def ex_x_def
      zero_steps_at nth_append ex_bc1_def ex_bc2_def constrained_def)

text \<open>
  C4. For every bilinear form \<open>a\<close>, coefficient \<open>x\<close> and two boundary conditions \<open>bc1\<close> and
  \<open>bc2\<close> whose node sets intersect, the result of
  \<^verbatim>\<open>action(a, x, bcs=[bc1, bc2]).assemble()\<close> at every node \<open>i\<close> of the intersection is the
  value of \<open>x\<close> at that node, and the result there is the same when the two boundary
  conditions are supplied in the opposite order.
\<close>

theorem overlap_restored_in_either_order:
  assumes "x < length h" and "i \<in> node_set bc1" and "i \<in> node_set bc2"
  shows "action ufl_action a (Some x) (Some [bc1, bc2])
           = ActionObject (Action_init a (Some x) (Some [bc1, bc2]))
       \<and> fst (Action_assemble ufl_action asm h (Action_init a (Some x) (Some [bc1, bc2])) None)
           = Inr (length h)
       \<and> (snd (Action_assemble ufl_action asm h (Action_init a (Some x) (Some [bc1, bc2])) None)
            ! length h) i = (h ! x) i
       \<and> fst (Action_assemble ufl_action asm h (Action_init a (Some x) (Some [bc2, bc1])) None)
           = Inr (length h)
       \<and> (snd (Action_assemble ufl_action asm h (Action_init a (Some x) (Some [bc2, bc1])) None)
            ! length h) i
         = (snd (Action_assemble ufl_action asm h (Action_init a (Some x) (Some [bc1, bc2])) None)
            ! length h) i"
  using assms
  by (simp add: Action_assemble_fresh action_def assemble_steps_def restore_steps_at
      constrained_def)

text \<open>Node 1 lies in both node sets of the concrete input; \<open>x\<close> holds 6 there.\<close>

theorem overlap_restored_in_either_order_witness:
  "(snd (Action_assemble ActionOf ex_asm ex_store
           (Action_init Mass (Some 0) (Some [ex_bc1, ex_bc2])) None) ! 2) 1 = 6
   \<and> (snd (Action_assemble ActionOf ex_asm ex_store
           (Action_init Mass (Some 0) (Some [ex_bc2, ex_bc1])) None) ! 2) 1 = 6"
proof -
  have len: "0 < length ex_store"
    by (simp add: ex_store_simps)
  have in1: "1 \<in> node_set ex_bc1"
    by (simp add: ex_bc1_def)
  have in2: "1 \<in> node_set ex_bc2"
    by (simp add: ex_bc2_def)
  note A = overlap_restored_in_either_order [OF len in1 in2, where ufl_action = ActionOf
      and asm = ex_asm and a = Mass, unfolded ex_store_simps]
  note first = A [THEN conjunct2, THEN conjunct2, THEN conjunct1]
  note second = A [THEN conjunct2, THEN conjunct2, THEN conjunct2, THEN conjunct2]
  from first have "(snd (Action_assemble ActionOf ex_asm ex_store
           (Action_init Mass (Some 0) (Some [ex_bc1, ex_bc2])) None) ! 2) 1 = 6"
    by (simp add: ex_x_def)
  then show ?thesis
    using second by simp
qed

text \<open>
  C9. For every Action with boundary conditions, \<^verbatim>\<open>assemble(tensor)\<close> with a tensor returns
  the tensor itself, holding the result, and changes no other function that existed before
  the call; \<^verbatim>\<open>assemble()\<close> without a tensor returns a function that did not exist before
  the call, hence other than \<open>x\<close>, and leaves \<open>x\<close> and every other function that existed
  unchanged. (The result written into the tensor is the one of the specification's steps
  unless the tensor is \<open>x\<close> itself, where it is the assembled action.)
\<close>

theorem Action_assemble_frame:
  assumes "x < length h"
      and "case tensor of None \<Rightarrow> True | Some t \<Rightarrow> t < length h"
  shows "(\<forall>t. tensor = Some t \<longrightarrow>
            fst (Action_assemble ufl_action asm h (Action_init a (Some x) (Some bcs)) tensor)
              = Inr t
          \<and> snd (Action_assemble ufl_action asm h (Action_init a (Some x) (Some bcs)) tensor) ! t
              = (if t = x
                 then asm (ufl_action a (Some t)) (zeroed_store h x bcs tensor)
                 else assemble_steps ufl_action asm h a x bcs tensor)
          \<and> (\<forall>p < length h. p \<noteq> t \<longrightarrow>
                snd (Action_assemble ufl_action asm h (Action_init a (Some x) (Some bcs)) tensor) ! p
                  = h ! p))
       \<and> (tensor = None \<longrightarrow>
            fst (Action_assemble ufl_action asm h (Action_init a (Some x) (Some bcs)) tensor)
              = Inr (length h)
          \<and> length h \<noteq> x
          \<and> snd (Action_assemble ufl_action asm h (Action_init a (Some x) (Some bcs)) tensor) ! x
              = h ! x
          \<and> (\<forall>p < length h.
                snd (Action_assemble ufl_action asm h (Action_init a (Some x) (Some bcs)) tensor) ! p
                  = h ! p)
          \<and> snd (Action_assemble ufl_action asm h (Action_init a (Some x) (Some bcs)) tensor)
                ! length h
              = assemble_steps ufl_action asm h a x bcs tensor)"
proof (cases tensor)
  case None
  with assms(1) show ?thesis
    by (simp add: Action_assemble_fresh nth_append)
next
  case (Some t)
  with assms have t: "t < length h" by simp
  show ?thesis
  proof (cases "t = x")
    case True
    with t Some show ?thesis
      by (simp add: Action_assemble_alias nth_append)
  next
    case False
    with t Some assms(1) show ?thesis
      by (simp add: Action_assemble_tensor nth_append)
  qed
qed

text \<open>
  With the buffer as tensor the buffer is returned and \<open>x\<close> keeps its values; without a
  tensor the new function 2 is returned and \<open>x\<close> keeps its values.
\<close>

theorem Action_assemble_frame_witness:
  "fst (Action_assemble ActionOf ex_asm ex_store
          (Action_init Mass (Some 0) (Some [ex_bc1, ex_bc2])) (Some 1)) = Inr 1
   \<and> snd (Action_assemble ActionOf ex_asm ex_store
          (Action_init Mass (Some 0) (Some [ex_bc1, ex_bc2])) (Some 1)) ! 0 = ex_x
   \<and> fst (Action_assemble ActionOf ex_asm ex_store
          (Action_init Mass (Some 0) (Some [ex_bc1, ex_bc2])) None) = Inr 2
   \<and> snd (Action_assemble ActionOf ex_asm ex_store
          (Action_init Mass (Some 0) (Some [ex_bc1, ex_bc2])) None) ! 0 = ex_x"
proof -
  have len: "0 < length ex_store"
    by (simp add: ex_store_simps)
  have ten: "case Some 1 of None \<Rightarrow> True | Some t \<Rightarrow> t < length ex_store"
    by (simp add: ex_store_simps)
  have non: "case None :: ref option of None \<Rightarrow> True | Some t \<Rightarrow> t < length ex_store"
    by simp
  note A = Action_assemble_frame [OF len ten, where ufl_action = ActionOf and asm = ex_asm
      and a = Mass and bcs = "[ex_bc1, ex_bc2]", THEN conjunct1, THEN spec, of 1]
  note B = Action_assemble_frame [OF len non, where ufl_action = ActionOf and asm = ex_asm
      and a = Mass and bcs = "[ex_bc1, ex_bc2]", THEN conjunct2]
  from A have "fst (Action_assemble ActionOf ex_asm ex_store
          (Action_init Mass (Some 0) (Some [ex_bc1, ex_bc2])) (Some 1)) = Inr 1
   \<and> snd (Action_assemble ActionOf ex_asm ex_store
          (Action_init Mass (Some 0) (Some [ex_bc1, ex_bc2])) (Some 1)) ! 0 = ex_x"
    by (simp add: ex_store_simps)
  moreover from B have "fst (Action_assemble ActionOf ex_asm ex_store
          (Action_init Mass (Some 0) (Some [ex_bc1, ex_bc2])) None) = Inr 2
   \<and> snd (Action_assemble ActionOf ex_asm ex_store
          (Action_init Mass (Some 0) (Some [ex_bc1, ex_bc2])) None) ! 0 = ex_x"
    by (simp add: ex_store_simps)
  ultimately show ?thesis
    by simp
qed

text \<open>
  C8. \<^verbatim>\<open>derivative(form, u, du)\<close> fails, with \<^verbatim>\<open>RuntimeError\<close> and no other error, if and only if
  \<open>du\<close> is not supplied and \<open>u\<close> is not a discrete function. When \<open>du\<close> is omitted and \<open>u\<close>
  is a discrete function on \<open>V\<close>, \<open>du\<close> is a new Argument with the element of \<open>V\<close>, bound to
  \<open>V\<close>, numbered by the engine, and the result is the engine's derivative of \<open>form\<close> with
  respect to \<open>u\<close> using it. A supplied \<open>du\<close> is handed to the engine as it is, whatever it
  is, and no Argument is constructed.
\<close>

theorem derivative_du:
  "(\<forall>e. fst (derivative ufl_derivative next_count h form u du) = Inl e
          \<longleftrightarrow> e = RuntimeError \<and> du = None \<and> (\<forall>V. u \<noteq> PyFunction V))
   \<and> (\<forall>V. du = None \<and> u = PyFunction V \<longrightarrow>
          derivative ufl_derivative next_count h form u du
            = (Inr (ufl_derivative form u (PyArgument (length h))),
               h @ [\<lparr>arg_element = ufl_element V, arg_count = next_count h,
                      arg_function_space = V\<rparr>]))
   \<and> (\<forall>d. du = Some d \<longrightarrow>
          derivative ufl_derivative next_count h form u du
            = (Inr (ufl_derivative form u d), h))
   \<and> (du = None \<and> (\<forall>V. u \<noteq> PyFunction V) \<longrightarrow>
          derivative ufl_derivative next_count h form u du = (Inl RuntimeError, h))"
  by (cases du; cases u) (auto simp: derivative_def Argument_new_def)

theorem derivative_du_witness:
  "derivative DerivativeOf ex_next_count ex_args Mass (PyFunction ex_V) None
     = (Inr (DerivativeOf Mass (PyFunction ex_V) (PyArgument 2)),
        ex_args @ [\<lparr>arg_element = ex_P1, arg_count = 2, arg_function_space = ex_V\<rparr>])
   \<and> derivative DerivativeOf ex_next_count ex_args Mass (PyStr ''u'') None
     = (Inl RuntimeError, ex_args)
   \<and> derivative DerivativeOf ex_next_count ex_args Mass (PyStr ''u'') (Some (PyInt 7))
     = (Inr (DerivativeOf Mass (PyStr ''u'') (PyInt 7)), ex_args)"
  using derivative_du [of DerivativeOf ex_next_count ex_args Mass "PyFunction ex_V" None]
        derivative_du [of DerivativeOf ex_next_count ex_args Mass "PyStr ''u''" None]
        derivative_du [of DerivativeOf ex_next_count ex_args Mass "PyStr ''u''" "Some (PyInt 7)"]
  by (simp add: ex_args_def ex_next_count_def ex_V_def)

text \<open>
  C5. For every bilinear form, whose two arguments \<^verbatim>\<open>extract_arguments\<close> returns as \<open>v\<close>
  (test) and \<open>u\<close> (trial), \<^verbatim>\<open>adjoint(form)\<close> hands the engine's adjoint operator the pair
  of two new Arguments: the first with the element and function space of \<open>u\<close>, the second
  with those of \<open>v\<close>, both constructed without a count and so numbered by the engine.
  A supplied \<open>reordered_arguments\<close> is handed to the engine as it is, whatever it is, and
  no Argument is constructed.
\<close>

theorem adjoint_reordered_arguments:
  assumes "extract_arguments form = [v, u]" and "v < length h" and "u < length h"
  shows "adjoint ufl_adjoint extract_arguments next_count h form None
           = (Inr (ufl_adjoint form
                     (PyTuple [PyArgument (length h), PyArgument (Suc (length h))])),
              h @ [\<lparr>arg_element = arg_element (h ! u), arg_count = next_count h,
                     arg_function_space = arg_function_space (h ! u)\<rparr>,
                   \<lparr>arg_element = arg_element (h ! v),
                     arg_count = next_count
                       (h @ [\<lparr>arg_element = arg_element (h ! u), arg_count = next_count h,
                               arg_function_space = arg_function_space (h ! u)\<rparr>]),
                     arg_function_space = arg_function_space (h ! v)\<rparr>])
       \<and> adjoint ufl_adjoint extract_arguments next_count h form (Some r)
           = (Inr (ufl_adjoint form r), h)"
  using assms by (simp add: adjoint_def Argument_new_def nth_append)

theorem adjoint_reordered_arguments_witness:
  "adjoint AdjointOf ex_extract_arguments ex_next_count ex_args Mass None
     = (Inr (AdjointOf Mass (PyTuple [PyArgument 2, PyArgument 3])),
        ex_args @ [\<lparr>arg_element = ex_P1, arg_count = 2, arg_function_space = ex_V\<rparr>,
                   \<lparr>arg_element = ex_P1, arg_count = 3, arg_function_space = ex_V\<rparr>])
   \<and> adjoint AdjointOf ex_extract_arguments ex_next_count ex_args Mass (Some (PyStr ''uv''))
     = (Inr (AdjointOf Mass (PyStr ''uv'')), ex_args)"
proof -
  have ex: "ex_extract_arguments Mass = [0, 1]"
    by simp
  have v: "0 < length ex_args" and u: "1 < length ex_args"
    by (simp_all add: ex_args_def)
  from adjoint_reordered_arguments [where extract_arguments = ex_extract_arguments
      and form = Mass and h = ex_args and ufl_adjoint = AdjointOf and next_count = ex_next_count
      and r = "PyStr ''uv''", OF ex v u]
  show ?thesis
    by (simp add: ex_args_def ex_next_count_def ex_test_def ex_trial_def)
qed




text \<open>
  C2, at the input where the code departs from it. The Argument 0 of the concrete store is
  bound to \<open>ex_V\<close>; \<^verbatim>\<open>reconstruct(function_space=ex_W)\<close> with another function space
  returns the very same object, still bound to \<open>ex_V\<close>, and constructs nothing: the test
  before the early return compares the count and the element, not the function space.
\<close>

theorem reconstruct_keeps_old_function_space:
  "reconstruct ex_next_count ex_args 0 None (Some ex_W) None = (Inr 0, ex_args)
   \<and> arg_function_space (ex_args ! 0) = ex_V
   \<and> ex_W \<noteq> ex_V"
  by (simp add: reconstruct_unchanged ex_args_def ex_test_def ex_W_def ex_V_def)




end
